theory Spec2Isabelle
  imports Main "HOL-Library.Sublist"
begin

section \<open>Python strings\<close>

text \<open>
  A Python \<open>str\<close> is a sequence of Unicode code points, and every operation of
  \<open>generate_post.py\<close> on strings (slicing, \<open>in\<close>, \<open>split\<close>, \<open>strip\<close>) counts code
  points. A string is therefore modelled as a list of code points; \<open>ustr\<close> writes an
  ASCII literal. Characters outside ASCII are written by number (the em dash of the
  fallback template is 8212).
\<close>

type_synonym ustring = "nat list"

abbreviation (input) ustr :: "string \<Rightarrow> ustring" where
  "ustr s \<equiv> map of_char s"

text \<open>\<open>p in s\<close> on strings: \<open>p\<close> occurs in \<open>s\<close> as a contiguous block.\<close>

fun str_in :: "'a list \<Rightarrow> 'a list \<Rightarrow> bool" where
  "str_in p [] = (p = [])"
| "str_in p (c # s) = (prefix p (c # s) \<or> str_in p s)"

text \<open>The number of positions of \<open>s\<close> at which \<open>p\<close> occurs.\<close>

fun count_occ :: "'a list \<Rightarrow> 'a list \<Rightarrow> nat" where
  "count_occ p [] = (if p = [] then 1 else 0)"
| "count_occ p (c # s) = (if prefix p (c # s) then 1 else 0) + count_occ p s"

text \<open>\<open>sep.join(xs)\<close>.\<close>

fun join :: "'a list \<Rightarrow> 'a list list \<Rightarrow> 'a list" where
  "join sep [] = []"
| "join sep [x] = x"
| "join sep (x # y # xs) = x @ sep @ join sep (y # xs)"

text \<open>
  \<open>str.isspace\<close> on one code point (the white space table of CPython) and the line
  boundaries of \<open>str.splitlines\<close>.
\<close>

definition is_space :: "nat \<Rightarrow> bool" where
  "is_space c =
     ((9 \<le> c \<and> c \<le> 13) \<or> (28 \<le> c \<and> c \<le> 32) \<or> c = 133 \<or> c = 160 \<or> c = 5760
      \<or> (8192 \<le> c \<and> c \<le> 8202) \<or> c = 8232 \<or> c = 8233 \<or> c = 8239 \<or> c = 8287
      \<or> c = 12288)"

definition is_linebreak :: "nat \<Rightarrow> bool" where
  "is_linebreak c =
     ((10 \<le> c \<and> c \<le> 13) \<or> (28 \<le> c \<and> c \<le> 30) \<or> c = 133 \<or> c = 8232 \<or> c = 8233)"

text \<open>\<open>s.strip()\<close>: white space removed at both ends.\<close>

definition strip :: "ustring \<Rightarrow> ustring" where
  "strip s = rev (dropWhile is_space (rev (dropWhile is_space s)))"

text \<open>
  \<open>s.splitlines()\<close>, with the line read so far as an accumulator. A carriage return
  followed by a line feed is one boundary; a text that ends with a boundary has no
  empty last line.
\<close>

fun splitlines_acc :: "ustring \<Rightarrow> ustring \<Rightarrow> ustring list" where
  "splitlines_acc cur [] = (if cur = [] then [] else [cur])"
| "splitlines_acc cur (c # s) =
     (if c = 13 then
        (case s of
           [] \<Rightarrow> [cur]
         | d # s' \<Rightarrow> if d = 10 then cur # splitlines_acc [] s' else cur # splitlines_acc [] s)
      else if is_linebreak c then cur # splitlines_acc [] s
      else splitlines_acc (cur @ [c]) s)"

definition splitlines :: "ustring \<Rightarrow> ustring list" where
  "splitlines s = splitlines_acc [] s"

text \<open>
  \<open>s.split("\n\n")\<close>, with the block read so far as an accumulator: the text is cut at
  each pair of line feeds, scanning from the left.
\<close>

fun split_blank_acc :: "ustring \<Rightarrow> ustring \<Rightarrow> ustring list" where
  "split_blank_acc cur [] = [cur]"
| "split_blank_acc cur [c] = [cur @ [c]]"
| "split_blank_acc cur (c # d # s) =
     (if c = 10 \<and> d = 10 then cur # split_blank_acc [] s
      else split_blank_acc (cur @ [c]) (d # s))"

definition split_blank :: "ustring \<Rightarrow> ustring list" where
  "split_blank s = split_blank_acc [] s"

section \<open>Configuration\<close>

text \<open>
  The module-level constants read from the environment. \<open>os.getenv\<close> without a default
  gives \<open>None\<close> for an unset variable; \<open>AFF_LINK\<close> and \<open>PRIMARY_KEYWORD\<close> have defaults and
  are always strings.
\<close>

record config =
  WP_URL :: "ustring option"
  WP_USER :: "ustring option"
  WP_APP_PASS :: "ustring option"
  AFF_LINK :: ustring
  OPENAI_KEY :: "ustring option"
  HF_TOKEN :: "ustring option"
  PRIMARY_KEYWORD :: ustring

definition default_AFF_LINK :: ustring where
  "default_AFF_LINK = ustr ''https://affiliate.example/?ref=you''"

definition default_PRIMARY_KEYWORD :: ustring where
  "default_PRIMARY_KEYWORD = ustr ''best marketing automation tools 2025''"

definition load_config :: "(ustring \<rightharpoonup> ustring) \<Rightarrow> config" where
  "load_config environ =
     \<lparr> WP_URL = environ (ustr ''WP_URL''),
       WP_USER = environ (ustr ''WP_USER''),
       WP_APP_PASS = environ (ustr ''WP_APP_PASS''),
       AFF_LINK = (case environ (ustr ''AFF_LINK'') of None \<Rightarrow> default_AFF_LINK | Some v \<Rightarrow> v),
       OPENAI_KEY = environ (ustr ''OPENAI_API_KEY''),
       HF_TOKEN = environ (ustr ''HF_TOKEN''),
       PRIMARY_KEYWORD =
         (case environ (ustr ''PRIMARY_KEYWORD'') of None \<Rightarrow> default_PRIMARY_KEYWORD | Some v \<Rightarrow> v) \<rparr>"

text \<open>Truth value of an optional string in a condition: \<open>None\<close> and \<open>""\<close> are false.\<close>

definition truthy_opt :: "ustring option \<Rightarrow> bool" where
  "truthy_opt v = (case v of None \<Rightarrow> False | Some s \<Rightarrow> s \<noteq> [])"

text \<open>An optional string inside an f-string: \<open>None\<close> prints as \<open>None\<close>.\<close>

definition fmt_opt :: "ustring option \<Rightarrow> ustring" where
  "fmt_opt v = (case v of None \<Rightarrow> ustr ''None'' | Some s \<Rightarrow> s)"

section \<open>The formatter (lines 123 to 133 of \<open>main\<close>)\<close>

definition MARKER :: ustring where
  "MARKER = ustr ''<!-- AUTO_GENERATED -->''"

text \<open>\<open>lines = [l.strip() for l in txt.splitlines() if l.strip()]\<close>\<close>

definition main_lines :: "ustring \<Rightarrow> ustring list" where
  "main_lines txt = map strip (filter (\<lambda>l. strip l \<noteq> []) (splitlines txt))"

text \<open>\<open>title = lines[0] if lines else PRIMARY_KEYWORD\<close>\<close>

definition main_title :: "config \<Rightarrow> ustring list \<Rightarrow> ustring" where
  "main_title cfg lines = (case lines of [] \<Rightarrow> PRIMARY_KEYWORD cfg | l # _ \<Rightarrow> l)"

text \<open>\<open>body = "\n".join(lines[1:]) if len(lines) > 1 else ""\<close>\<close>

definition main_body :: "ustring list \<Rightarrow> ustring" where
  "main_body lines = (if length lines > 1 then join [10] (drop 1 lines) else [])"

text \<open>
  The wrapping step:
  \<^verbatim>\<open>
  if "<p>" not in body and "<h" not in body:
      paragraphs = [f"<p>{p}</p>" for p in body.split("\n\n") if p.strip()]
      body = "\n".join(paragraphs)
  \<close>
\<close>

definition wrap_paragraphs :: "ustring \<Rightarrow> ustring" where
  "wrap_paragraphs body =
     (if \<not> str_in (ustr ''<p>'') body \<and> \<not> str_in (ustr ''<h'') body
      then join [10]
             (map (\<lambda>p. ustr ''<p>'' @ p @ ustr ''</p>'')
                (filter (\<lambda>p. strip p \<noteq> []) (split_blank body)))
      else body)"

text \<open>\<open>excerpt = body[:140]\<close>\<close>

definition main_excerpt :: "ustring \<Rightarrow> ustring" where
  "main_excerpt body = take 140 body"

text \<open>
  The marker step:
  \<^verbatim>\<open>
  if "<!-- AUTO_GENERATED -->" not in body:
      body += "\n\n<!-- AUTO_GENERATED -->"
  \<close>
\<close>

definition append_marker :: "ustring \<Rightarrow> ustring" where
  "append_marker body = (if \<not> str_in MARKER body then body @ [10, 10] @ MARKER else body)"

record formatted_post =
  post_title :: ustring
  post_body :: ustring
  post_excerpt :: ustring

definition format_post :: "config \<Rightarrow> ustring \<Rightarrow> formatted_post" where
  "format_post cfg txt =
     (let lines = main_lines txt;
          b = wrap_paragraphs (main_body lines)
      in \<lparr> post_title = main_title cfg lines, post_body = append_marker b,
           post_excerpt = main_excerpt b \<rparr>)"


section \<open>The local fallback generator\<close>

text \<open>
  \<^verbatim>\<open>
  def fallback_generate(prompt):
      title = f"{PRIMARY_KEYWORD} \<emdash> A practical guide"
      body = f"<h2>Introduction</h2><p>This article provides a concise overview for '{PRIMARY_KEYWORD}'.</p>"
      body += "<h2>Top picks</h2><ul><li>Tool A \<emdash> Good for small teams</li><li>Tool B \<emdash> Good for enterprise</li></ul>"
      body += f"<p>For more details and an affiliate offer, visit {AFF_LINK}</p>"
      return f"{title}\n\n{body}\n\n<!-- AUTO_GENERATED -->"
  \<close>
  The apostrophe is code point 39, the em dash 8212, the line feed 10.
\<close>

definition fallback_title :: "config \<Rightarrow> ustring" where
  "fallback_title cfg = PRIMARY_KEYWORD cfg @ [32, 8212] @ ustr '' A practical guide''"

definition fallback_body :: "config \<Rightarrow> ustring" where
  "fallback_body cfg =
     (ustr ''<h2>Introduction</h2><p>This article provides a concise overview for '' @ [39]
        @ PRIMARY_KEYWORD cfg @ [39] @ ustr ''.</p>'')
     @ (ustr ''<h2>Top picks</h2><ul><li>Tool A '' @ [8212]
        @ ustr '' Good for small teams</li><li>Tool B '' @ [8212]
        @ ustr '' Good for enterprise</li></ul>'')
     @ (ustr ''<p>For more details and an affiliate offer, visit '' @ AFF_LINK cfg
        @ ustr ''</p>'')"

definition fallback_generate :: "config \<Rightarrow> ustring \<Rightarrow> ustring" where
  "fallback_generate cfg prompt =
     fallback_title cfg @ [10, 10] @ fallback_body cfg @ [10, 10] @ ustr ''<!-- AUTO_GENERATED -->''"

section \<open>JSON values, exceptions, HTTP\<close>

text \<open>
  What \<open>r.json()\<close> returns: \<open>None\<close>, a bool, an int, a float, a str, a list or a dict
  with string keys (an association list whose first binding of a key is the dict's).
  A float is a dyadic number \<open>m * 2 ^ e\<close>, an infinity or a NaN.
\<close>

datatype pyfloat = Finite int int | Infinity bool | NaN

datatype json =
    JNull
  | JBool bool
  | JInt int
  | JFloat pyfloat
  | JStr ustring
  | JArr "json list"
  | JObj "(ustring \<times> json) list"

text \<open>
  The exceptions of the run, all subclasses of \<open>Exception\<close>. \<open>RequestException\<close> stands
  for every failure of \<open>requests.get\<close> and \<open>requests.post\<close> themselves (connection error,
  timeout, invalid URL); \<open>HTTPError\<close> is what \<open>raise_for_status\<close> raises.
\<close>

datatype exn =
    RequestException
  | HTTPError nat
  | JSONDecodeError
  | KeyError
  | IndexError
  | TypeError
  | AttributeError
  | UnicodeEncodeError

datatype http_method = GET | POST

datatype req_body = NoBody | JsonBody json | DataBody "nat list"

record request =
  verb :: http_method
  url :: ustring
  headers :: "(ustring \<times> ustring) list"
  payload :: req_body
  timeout :: "nat option"

record response =
  status_code :: nat
  content :: "nat list"
  json_body :: "json option"

text \<open>What the script prints, one constructor for each \<open>print\<close> of the source.\<close>

datatype printed_line =
    Generating_content
  | Model_call_failed exn
  | Using_fallback_generator
  | Draft_created json
  | Featured_image_set
  | Image_attach_failed exn
  | Failed_to_post exn

text \<open>
  The world outside the script: the network answers a request, possibly depending on
  the requests made before it; \<open>b64encode\<close> (followed by \<open>decode\<close>) and \<open>str\<close> on a JSON
  value are the library's; \<open>stdout_accepts\<close> tells whether standard output can encode
  the text of a line that carries a value.
\<close>

record env =
  net :: "request list \<Rightarrow> request \<Rightarrow> exn + response"
  b64encode :: "nat list \<Rightarrow> ustring"
  py_str :: "json \<Rightarrow> ustring"
  stdout_accepts :: "printed_line \<Rightarrow> bool"

text \<open>
  The state of a run: the HTTP calls made so far and the lines printed so far (the
  lines whose \<open>print\<close> returned).
\<close>

record run =
  sent :: "request list"
  printed :: "printed_line list"

definition send :: "env \<Rightarrow> request \<Rightarrow> run \<Rightarrow> (exn + response) \<times> run" where
  "send E rq st = (net E (sent st) rq, st\<lparr>sent := sent st @ [rq]\<rparr>)"

definition print_line :: "printed_line \<Rightarrow> run \<Rightarrow> run" where
  "print_line l st = st\<lparr>printed := printed st @ [l]\<rparr>"

text \<open>
  The three prints of the publishing part of \<open>main\<close> (lines 138, 152 and 154) write a
  value after their label: the identifier read from the blog's answer, or the error that
  was caught. \<open>print\<close> raises \<open>UnicodeEncodeError\<close> when standard output cannot encode
  the text of the value (a string with a lone surrogate, for one); the line is then not
  printed.
\<close>

definition print_value :: "env \<Rightarrow> printed_line \<Rightarrow> run \<Rightarrow> (exn + unit) \<times> run" where
  "print_value E l st =
     (if stdout_accepts E l then (Inr (), print_line l st) else (Inl UnicodeEncodeError, st))"

text \<open>\<open>r.raise_for_status()\<close>: a status from 400 to 599 raises.\<close>

definition raise_for_status :: "response \<Rightarrow> exn + unit" where
  "raise_for_status r =
     (if 400 \<le> status_code r \<and> status_code r < 600 then Inl (HTTPError (status_code r))
      else Inr ())"

text \<open>\<open>r.json()\<close>: a body that is not JSON raises.\<close>

definition response_json :: "response \<Rightarrow> exn + json" where
  "response_json r = (case json_body r of None \<Rightarrow> Inl JSONDecodeError | Some j \<Rightarrow> Inr j)"

text \<open>The truth value of a JSON value in a condition.\<close>

fun truthy :: "json \<Rightarrow> bool" where
  "truthy JNull = False"
| "truthy (JBool b) = b"
| "truthy (JInt n) = (n \<noteq> 0)"
| "truthy (JFloat (Finite m e)) = (m \<noteq> 0)"
| "truthy (JFloat (Infinity s)) = True"
| "truthy (JFloat NaN) = True"
| "truthy (JStr s) = (s \<noteq> [])"
| "truthy (JArr xs) = (xs \<noteq> [])"
| "truthy (JObj kvs) = (kvs \<noteq> [])"

text \<open>\<open>v[key]\<close> with a string key: only a dict can be subscripted by a string.\<close>

fun subscript_key :: "json \<Rightarrow> ustring \<Rightarrow> exn + json" where
  "subscript_key (JObj kvs) key =
     (case map_of kvs key of None \<Rightarrow> Inl KeyError | Some v \<Rightarrow> Inr v)"
| "subscript_key v key = Inl TypeError"

text \<open>\<open>v[0]\<close>.\<close>

fun subscript_0 :: "json \<Rightarrow> exn + json" where
  "subscript_0 (JArr xs) = (case xs of [] \<Rightarrow> Inl IndexError | x # _ \<Rightarrow> Inr x)"
| "subscript_0 (JStr s) = (case s of [] \<Rightarrow> Inl IndexError | c # _ \<Rightarrow> Inr (JStr [c]))"
| "subscript_0 (JObj kvs) = Inl KeyError"
| "subscript_0 v = Inl TypeError"

text \<open>\<open>v.get(key)\<close>: only a dict has \<open>get\<close>; a missing key gives \<open>None\<close>.\<close>

fun py_get :: "json \<Rightarrow> ustring \<Rightarrow> exn + json" where
  "py_get (JObj kvs) key = (case map_of kvs key of None \<Rightarrow> Inr JNull | Some v \<Rightarrow> Inr v)"
| "py_get v key = Inl AttributeError"

text \<open>\<open>key in v\<close> for a string \<open>key\<close>.\<close>

fun py_contains :: "ustring \<Rightarrow> json \<Rightarrow> exn + bool" where
  "py_contains key (JObj kvs) = Inr (key \<in> set (map fst kvs))"
| "py_contains key (JStr s) = Inr (str_in key s)"
| "py_contains key (JArr xs) = Inr (JStr key \<in> set xs)"
| "py_contains key v = Inl TypeError"

text \<open>\<open>isinstance(v, list)\<close>\<close>

fun is_list :: "json \<Rightarrow> bool" where
  "is_list (JArr xs) = True"
| "is_list v = False"

section \<open>Encoding\<close>

text \<open>\<open>s.encode()\<close>: UTF-8; a surrogate cannot be encoded.\<close>

definition utf8_char :: "nat \<Rightarrow> exn + nat list" where
  "utf8_char c =
     (if c < 128 then Inr [c]
      else if c < 2048 then Inr [192 + c div 64, 128 + c mod 64]
      else if c < 65536 then
        (if 55296 \<le> c \<and> c \<le> 57343 then Inl UnicodeEncodeError
         else Inr [224 + c div 4096, 128 + (c div 64) mod 64, 128 + c mod 64])
      else if c < 1114112 then
        Inr [240 + c div 262144, 128 + (c div 4096) mod 64, 128 + (c div 64) mod 64,
             128 + c mod 64]
      else Inl UnicodeEncodeError)"

fun utf8_encode :: "ustring \<Rightarrow> exn + nat list" where
  "utf8_encode [] = Inr []"
| "utf8_encode (c # s) =
     (case utf8_char c of
        Inl e \<Rightarrow> Inl e
      | Inr bs \<Rightarrow> (case utf8_encode s of Inl e \<Rightarrow> Inl e | Inr r \<Rightarrow> Inr (bs @ r)))"

text \<open>
  \<open>requests.utils.quote(s)\<close>, which is \<open>urllib.parse.quote\<close> with \<open>safe="/"\<close>: the UTF-8
  bytes of \<open>s\<close>, each kept if it is an ASCII letter, a digit or one of \<open>_.-~/\<close> and
  written as \<open>%XX\<close> otherwise.
\<close>

definition quote_safe :: "nat \<Rightarrow> bool" where
  "quote_safe b =
     ((65 \<le> b \<and> b \<le> 90) \<or> (97 \<le> b \<and> b \<le> 122) \<or> (48 \<le> b \<and> b \<le> 57)
      \<or> b = 95 \<or> b = 46 \<or> b = 45 \<or> b = 126 \<or> b = 47)"

definition hex_digit :: "nat \<Rightarrow> nat" where
  "hex_digit d = (if d < 10 then 48 + d else 55 + d)"

definition quote_byte :: "nat \<Rightarrow> ustring" where
  "quote_byte b = (if quote_safe b then [b] else [37, hex_digit (b div 16), hex_digit (b mod 16)])"

definition quote :: "ustring \<Rightarrow> exn + ustring" where
  "quote s = (case utf8_encode s of Inl e \<Rightarrow> Inl e | Inr bs \<Rightarrow> Inr (concat (map quote_byte bs)))"

text \<open>\<open>b64encode(f"{WP_USER}:{WP_APP_PASS}".encode()).decode()\<close>\<close>

definition basic_auth :: "env \<Rightarrow> config \<Rightarrow> exn + ustring" where
  "basic_auth E cfg =
     (case utf8_encode (fmt_opt (WP_USER cfg) @ ustr '':'' @ fmt_opt (WP_APP_PASS cfg)) of
        Inl e \<Rightarrow> Inl e
      | Inr bs \<Rightarrow> Inr (b64encode E bs))"

section \<open>The generation backends\<close>

text \<open>
  \<open>call_openai\<close>: one POST to the chat-completion endpoint, then
  \<open>j["choices"][0]["message"]["content"]\<close>. The temperature 0.2 is the float
  \<open>3602879701896397 * 2 ^ -54\<close>.
\<close>

definition openai_request :: "config \<Rightarrow> ustring \<Rightarrow> request" where
  "openai_request cfg prompt =
     \<lparr> verb = POST,
       url = ustr ''https://api.openai.com/v1/chat/completions'',
       headers =
         [(ustr ''Authorization'', ustr ''Bearer '' @ fmt_opt (OPENAI_KEY cfg)),
          (ustr ''Content-Type'', ustr ''application/json'')],
       payload = JsonBody (JObj
         [(ustr ''model'',
             JStr (if truthy_opt (OPENAI_KEY cfg) then ustr ''gpt-4o-mini''
                   else ustr ''gpt-3.5-turbo'')),
          (ustr ''messages'', JArr
             [JObj [(ustr ''role'', JStr (ustr ''system'')),
                    (ustr ''content'', JStr (ustr ''You are an expert B2B SaaS writer.''))],
              JObj [(ustr ''role'', JStr (ustr ''user'')),
                    (ustr ''content'', JStr prompt)]]),
          (ustr ''temperature'', JFloat (Finite 3602879701896397 (- 54))),
          (ustr ''max_tokens'', JInt 1600)]),
       timeout = Some 120 \<rparr>"

definition openai_content :: "json \<Rightarrow> exn + json" where
  "openai_content j =
     (case subscript_key j (ustr ''choices'') of
        Inl e \<Rightarrow> Inl e
      | Inr cs \<Rightarrow>
          (case subscript_0 cs of
             Inl e \<Rightarrow> Inl e
           | Inr c \<Rightarrow>
               (case subscript_key c (ustr ''message'') of
                  Inl e \<Rightarrow> Inl e
                | Inr m \<Rightarrow> subscript_key m (ustr ''content''))))"

definition call_openai :: "env \<Rightarrow> config \<Rightarrow> ustring \<Rightarrow> run \<Rightarrow> (exn + json) \<times> run" where
  "call_openai E cfg prompt st =
     (case send E (openai_request cfg prompt) st of
        (Inl e, st') \<Rightarrow> (Inl e, st')
      | (Inr r, st') \<Rightarrow>
          (case raise_for_status r of
             Inl e \<Rightarrow> (Inl e, st')
           | Inr _ \<Rightarrow>
               (case response_json r of
                  Inl e \<Rightarrow> (Inl e, st')
                | Inr j \<Rightarrow> (openai_content j, st'))))"

text \<open>
  \<open>call_hf\<close>: without a token the local template is returned at once; with one, a
  single POST (no timeout) and then
  \<^verbatim>\<open>
  if isinstance(out, list) and "generated_text" in out[0]:
      return out[0]["generated_text"]
  return out.get("generated_text") or str(out)
  \<close>
\<close>

definition hf_request :: "config \<Rightarrow> ustring \<Rightarrow> request" where
  "hf_request cfg prompt =
     \<lparr> verb = POST,
       url = ustr ''https://api-inference.huggingface.co/models/gpt2'',
       headers = [(ustr ''Authorization'', ustr ''Bearer '' @ fmt_opt (HF_TOKEN cfg))],
       payload = JsonBody (JObj
         [(ustr ''inputs'', JStr prompt),
          (ustr ''parameters'', JObj [(ustr ''max_new_tokens'', JInt 800)])]),
       timeout = None \<rparr>"

definition hf_get_or_str :: "env \<Rightarrow> json \<Rightarrow> exn + json" where
  "hf_get_or_str E out =
     (case py_get out (ustr ''generated_text'') of
        Inl e \<Rightarrow> Inl e
      | Inr v \<Rightarrow> Inr (if truthy v then v else JStr (py_str E out)))"

definition hf_text :: "env \<Rightarrow> json \<Rightarrow> exn + json" where
  "hf_text E out =
     (if is_list out then
        (case subscript_0 out of
           Inl e \<Rightarrow> Inl e
         | Inr x \<Rightarrow>
             (case py_contains (ustr ''generated_text'') x of
                Inl e \<Rightarrow> Inl e
              | Inr b \<Rightarrow>
                  if b then subscript_key x (ustr ''generated_text'')
                  else hf_get_or_str E out))
      else hf_get_or_str E out)"

definition call_hf :: "env \<Rightarrow> config \<Rightarrow> ustring \<Rightarrow> run \<Rightarrow> (exn + json) \<times> run" where
  "call_hf E cfg prompt st =
     (if \<not> truthy_opt (HF_TOKEN cfg) then (Inr (JStr (fallback_generate cfg prompt)), st)
      else
        (case send E (hf_request cfg prompt) st of
           (Inl e, st') \<Rightarrow> (Inl e, st')
         | (Inr r, st') \<Rightarrow>
             (case raise_for_status r of
                Inl e \<Rightarrow> (Inl e, st')
              | Inr _ \<Rightarrow>
                  (case response_json r of
                     Inl e \<Rightarrow> (Inl e, st')
                   | Inr out \<Rightarrow> (hf_text E out, st')))))"

text \<open>
  \<^verbatim>\<open>
  def generate_content():
      prompt = (...)
      try:
          if OPENAI_KEY:
              return call_openai(prompt)
          else:
              return call_hf(prompt)
      except Exception as e:
          print("Model call failed:", e)
          print("Using fallback generator.")
          return fallback_generate(prompt)
  \<close>
\<close>

definition make_prompt :: "config \<Rightarrow> ustring" where
  "make_prompt cfg =
     ustr ''Write an SEO-friendly article (~900-1400 words) about: '' @ [39]
       @ PRIMARY_KEYWORD cfg @ [39] @ ustr ''. ''
     @ ustr ''Include: title, short meta description (<=150 chars), H1, H2 sections, 3 FAQs, and a final CTA paragraph with this affiliate link: ''
     @ AFF_LINK cfg
     @ ustr ''. Return plain text starting with the title on the first line.''"

definition generate_content :: "env \<Rightarrow> config \<Rightarrow> run \<Rightarrow> json \<times> run" where
  "generate_content E cfg st =
     (let prompt = make_prompt cfg in
      case (if truthy_opt (OPENAI_KEY cfg) then call_openai E cfg prompt st
            else call_hf E cfg prompt st) of
        (Inr txt, st') \<Rightarrow> (txt, st')
      | (Inl e, st') \<Rightarrow>
          (JStr (fallback_generate cfg prompt),
           print_line Using_fallback_generator (print_line (Model_call_failed e) st')))"

section \<open>Publishing and the image\<close>

definition post_request :: "config \<Rightarrow> ustring \<Rightarrow> ustring \<Rightarrow> ustring \<Rightarrow> ustring \<Rightarrow> request" where
  "post_request cfg auth title html_content excerpt =
     \<lparr> verb = POST,
       url = fmt_opt (WP_URL cfg) @ ustr ''/wp-json/wp/v2/posts'',
       headers =
         [(ustr ''Authorization'', ustr ''Basic '' @ auth),
          (ustr ''Content-Type'', ustr ''application/json'')],
       payload = JsonBody (JObj
         [(ustr ''title'', JStr title),
          (ustr ''content'', JStr html_content),
          (ustr ''excerpt'', JStr excerpt),
          (ustr ''status'', JStr (ustr ''draft''))]),
       timeout = Some 30 \<rparr>"

definition post_to_wp ::
  "env \<Rightarrow> config \<Rightarrow> ustring \<Rightarrow> ustring \<Rightarrow> ustring \<Rightarrow> run \<Rightarrow> (exn + json) \<times> run" where
  "post_to_wp E cfg title html_content excerpt st =
     (case basic_auth E cfg of
        Inl e \<Rightarrow> (Inl e, st)
      | Inr auth \<Rightarrow>
          (case send E (post_request cfg auth title html_content excerpt) st of
             (Inl e, st') \<Rightarrow> (Inl e, st')
           | (Inr r, st') \<Rightarrow>
               (case raise_for_status r of
                  Inl e \<Rightarrow> (Inl e, st')
                | Inr _ \<Rightarrow> (response_json r, st'))))"

definition unsplash_request :: "ustring \<Rightarrow> request" where
  "unsplash_request quoted =
     \<lparr> verb = GET,
       url = ustr ''https://source.unsplash.com/1200x630/?'' @ quoted,
       headers = [],
       payload = NoBody,
       timeout = Some 30 \<rparr>"

definition fetch_unsplash_image :: "env \<Rightarrow> ustring \<Rightarrow> run \<Rightarrow> (exn + nat list) \<times> run" where
  "fetch_unsplash_image E query st =
     (case quote query of
        Inl e \<Rightarrow> (Inl e, st)
      | Inr quoted \<Rightarrow>
          (case send E (unsplash_request quoted) st of
             (Inl e, st') \<Rightarrow> (Inl e, st')
           | (Inr r, st') \<Rightarrow>
               (case raise_for_status r of
                  Inl e \<Rightarrow> (Inl e, st')
                | Inr _ \<Rightarrow> (Inr (content r), st'))))"

definition media_request :: "config \<Rightarrow> ustring \<Rightarrow> nat list \<Rightarrow> ustring \<Rightarrow> request" where
  "media_request cfg auth binary_image filename =
     \<lparr> verb = POST,
       url = fmt_opt (WP_URL cfg) @ ustr ''/wp-json/wp/v2/media'',
       headers =
         [(ustr ''Authorization'', ustr ''Basic '' @ auth),
          (ustr ''Content-Disposition'', ustr ''attachment; filename='' @ [34] @ filename @ [34]),
          (ustr ''Content-Type'', ustr ''image/jpeg'')],
       payload = DataBody binary_image,
       timeout = Some 60 \<rparr>"

definition upload_media_to_wp ::
  "env \<Rightarrow> config \<Rightarrow> nat list \<Rightarrow> ustring \<Rightarrow> run \<Rightarrow> (exn + json) \<times> run" where
  "upload_media_to_wp E cfg binary_image filename st =
     (case basic_auth E cfg of
        Inl e \<Rightarrow> (Inl e, st)
      | Inr auth \<Rightarrow>
          (case send E (media_request cfg auth binary_image filename) st of
             (Inl e, st') \<Rightarrow> (Inl e, st')
           | (Inr r, st') \<Rightarrow>
               (case raise_for_status r of
                  Inl e \<Rightarrow> (Inl e, st')
                | Inr _ \<Rightarrow> (response_json r, st'))))"

text \<open>
  The request that sets the featured image (lines 146 to 149 of \<open>main\<close>), issued when
  \<open>post_id and media_id\<close> holds.
\<close>

definition featured_request :: "env \<Rightarrow> config \<Rightarrow> ustring \<Rightarrow> json \<Rightarrow> json \<Rightarrow> request" where
  "featured_request E cfg auth post_id media_id =
     \<lparr> verb = POST,
       url = fmt_opt (WP_URL cfg) @ ustr ''/wp-json/wp/v2/posts/'' @ py_str E post_id,
       headers =
         [(ustr ''Authorization'', ustr ''Basic '' @ auth),
          (ustr ''Content-Type'', ustr ''application/json'')],
       payload = JsonBody (JObj [(ustr ''featured_media'', media_id)]),
       timeout = Some 30 \<rparr>"

definition set_featured :: "env \<Rightarrow> config \<Rightarrow> json \<Rightarrow> json \<Rightarrow> run \<Rightarrow> (exn + unit) \<times> run" where
  "set_featured E cfg post_id media_id st =
     (case basic_auth E cfg of
        Inl e \<Rightarrow> (Inl e, st)
      | Inr auth \<Rightarrow>
          (case send E (featured_request E cfg auth post_id media_id) st of
             (Inl e, st') \<Rightarrow> (Inl e, st')
           | (Inr upd, st') \<Rightarrow>
               (case raise_for_status upd of
                  Inl e \<Rightarrow> (Inl e, st')
                | Inr _ \<Rightarrow> (Inr (), print_line Featured_image_set st'))))"

text \<open>
  The body of the inner \<open>try\<close> of \<open>main\<close> (lines 141 to 150):
  \<^verbatim>\<open>
  img = fetch_unsplash_image("saas dashboard")
  media = upload_media_to_wp(img, filename="hero.jpg")
  media_id = media.get("id")
  if post_id and media_id:
      ... requests.post(f"{WP_URL}/wp-json/wp/v2/posts/{post_id}", ...,
                        json={"featured_media": media_id}, timeout=30)
      upd.raise_for_status()
      print("Featured image set.")
  \<close>
\<close>

definition attach_image :: "env \<Rightarrow> config \<Rightarrow> json \<Rightarrow> run \<Rightarrow> (exn + unit) \<times> run" where
  "attach_image E cfg post_id st =
     (case fetch_unsplash_image E (ustr ''saas dashboard'') st of
        (Inl e, st1) \<Rightarrow> (Inl e, st1)
      | (Inr img, st1) \<Rightarrow>
          (case upload_media_to_wp E cfg img (ustr ''hero.jpg'') st1 of
             (Inl e, st2) \<Rightarrow> (Inl e, st2)
           | (Inr media, st2) \<Rightarrow>
               (case py_get media (ustr ''id'') of
                  Inl e \<Rightarrow> (Inl e, st2)
                | Inr media_id \<Rightarrow>
                    if truthy post_id \<and> truthy media_id
                    then set_featured E cfg post_id media_id st2
                    else (Inr (), st2))))"

text \<open>
  The inner \<open>try\<close> of \<open>main\<close> with its handler (lines 140 to 152): the handler catches
  every \<open>Exception\<close> of the image steps and prints it; this print can raise in its turn.
  \<^verbatim>\<open>
  try:
      ... the image steps ...
  except Exception as e:
      print("Image attach failed:", e)
  \<close>
\<close>

definition try_attach_image :: "env \<Rightarrow> config \<Rightarrow> json \<Rightarrow> run \<Rightarrow> (exn + unit) \<times> run" where
  "try_attach_image E cfg post_id st =
     (case attach_image E cfg post_id st of
        (Inl e, st') \<Rightarrow> print_value E (Image_attach_failed e) st'
      | (Inr u, st') \<Rightarrow> (Inr (), st'))"

text \<open>
  The body of the outer \<open>try\<close> of \<open>main\<close> (lines 136 to 152): whatever raises here,
  the post creation, \<open>res.get\<close> on an answer that is not a dict, the print of the
  identifier, or the print of the inner handler, ends the body.
  \<^verbatim>\<open>
  res = post_to_wp(title, body, excerpt)
  post_id = res.get("id")
  print("Draft created. Post ID:", post_id)
  try:
      ... the image steps ...
  except Exception as e:
      print("Image attach failed:", e)
  \<close>
\<close>

definition create_and_attach ::
  "env \<Rightarrow> config \<Rightarrow> formatted_post \<Rightarrow> run \<Rightarrow> (exn + unit) \<times> run" where
  "create_and_attach E cfg fp st =
     (case post_to_wp E cfg (post_title fp) (post_body fp) (post_excerpt fp) st of
        (Inl e, st1) \<Rightarrow> (Inl e, st1)
      | (Inr res, st1) \<Rightarrow>
          (case py_get res (ustr ''id'') of
             Inl e \<Rightarrow> (Inl e, st1)
           | Inr post_id \<Rightarrow>
               (case print_value E (Draft_created post_id) st1 of
                  (Inl e, st2) \<Rightarrow> (Inl e, st2)
                | (Inr u, st2) \<Rightarrow> try_attach_image E cfg post_id st2)))"

text \<open>
  The outer \<open>try\<close> of \<open>main\<close> with its handler (lines 135 to 154). The handler catches
  every \<open>Exception\<close> of the body and prints it; an exception raised by this last print
  is caught by nothing and leaves \<open>main\<close>.
  \<^verbatim>\<open>
  try:
      ... post creation, report, image steps ...
  except Exception as e:
      print("Failed to post:", e)
  \<close>
\<close>

definition publish :: "env \<Rightarrow> config \<Rightarrow> formatted_post \<Rightarrow> run \<Rightarrow> (exn + unit) \<times> run" where
  "publish E cfg fp st =
     (case create_and_attach E cfg fp st of
        (Inl e, st') \<Rightarrow> print_value E (Failed_to_post e) st'
      | (Inr u, st') \<Rightarrow> (Inr (), st'))"

text \<open>
  \<open>main\<close>: generate, format, publish. \<open>txt.splitlines()\<close> raises \<open>AttributeError\<close>,
  outside every \<open>try\<close>, when a backend returned something that is not a string.
\<close>

definition main :: "env \<Rightarrow> config \<Rightarrow> run \<Rightarrow> (exn + unit) \<times> run" where
  "main E cfg st =
     (case generate_content E cfg (print_line Generating_content st) of
        (JStr txt, st') \<Rightarrow> publish E cfg (format_post cfg txt) st'
      | (_, st') \<Rightarrow> (Inl AttributeError, st'))"

section \<open>Reading the trace of a run\<close>

text \<open>A field of the JSON object a request carries, if it carries one.\<close>

definition json_field :: "ustring \<Rightarrow> request \<Rightarrow> json option" where
  "json_field key rq =
     (case payload rq of JsonBody (JObj kvs) \<Rightarrow> map_of kvs key | _ \<Rightarrow> None)"

text \<open>
  The calls of the script are told apart by what they carry: the image fetch is its
  only GET, the media upload its only call with a raw body, the featured-media update
  its only call with a \<open>featured_media\<close> field, and each backend has its own address.
\<close>

definition is_image_fetch :: "request \<Rightarrow> bool" where
  "is_image_fetch rq = (verb rq = GET)"

definition is_media_upload :: "request \<Rightarrow> bool" where
  "is_media_upload rq = (case payload rq of DataBody d \<Rightarrow> True | _ \<Rightarrow> False)"

definition is_featured_update :: "request \<Rightarrow> bool" where
  "is_featured_update rq = (json_field (ustr ''featured_media'') rq \<noteq> None)"



text \<open>The calls made between two states of a run.\<close>

definition calls_between :: "run \<Rightarrow> run \<Rightarrow> request list" where
  "calls_between st st' = drop (length (sent st)) (sent st')"

section \<open>Example inputs\<close>

text \<open>
  A configuration with the blog's address and credentials set, no model credential,
  and the default keyword and affiliate link.
\<close>

definition example_config :: config where
  "example_config =
     \<lparr> WP_URL = Some (ustr ''https://blog.example''),
       WP_USER = Some (ustr ''u''),
       WP_APP_PASS = Some (ustr ''p''),
       AFF_LINK = default_AFF_LINK,
       OPENAI_KEY = None,
       HF_TOKEN = None,
       PRIMARY_KEYWORD = default_PRIMARY_KEYWORD \<rparr>"

text \<open>The same with \<open>PRIMARY_KEYWORD\<close> set to the text of the marker.\<close>

definition marker_keyword_config :: config where
  "marker_keyword_config = example_config\<lparr>PRIMARY_KEYWORD := ustr ''<!-- AUTO_GENERATED -->''\<rparr>"

text \<open>A generated text in plain prose, and one whose body is already marked up.\<close>

definition plain_text :: ustring where
  "plain_text = ustr ''A title'' @ [10, 10] @ ustr ''First block.'' @ [10, 10] @ ustr ''Second block.''"

definition html_text :: ustring where
  "html_text = ustr ''A title'' @ [10] @ ustr ''<h2>Intro</h2>'' @ [10] @ ustr ''<p>Text</p>''"

text \<open>The start of a run: nothing sent, nothing printed.\<close>

definition start :: run where
  "start = \<lparr> sent = [], printed = [] \<rparr>"


text \<open>
  Library functions for the examples: the Base64 text of \<open>u:p\<close>, the credentials of
  \<open>example_config\<close>, and \<open>str\<close> on the identifiers the examples meet.
\<close>

definition example_b64 :: "nat list \<Rightarrow> ustring" where
  "example_b64 bs = ustr ''dTpw''"

definition example_str :: "json \<Rightarrow> ustring" where
  "example_str v =
     (case v of JInt n \<Rightarrow> (if n = 42 then ustr ''42'' else ustr ''0'') | JStr s \<Rightarrow> s
      | _ \<Rightarrow> ustr ''None'')"

text \<open>
  A standard output in UTF-8: the line reporting a post whose identifier is a string is
  refused when the string cannot be encoded (it holds a surrogate); the text of every
  other identifier can be encoded (\<open>repr\<close> escapes a surrogate), and so can the texts of
  the errors of the examples.
\<close>

definition utf8_stdout :: "printed_line \<Rightarrow> bool" where
  "utf8_stdout l =
     (case l of
        Draft_created (JStr s) \<Rightarrow> (case utf8_encode s of Inl e \<Rightarrow> False | Inr bs \<Rightarrow> True)
      | _ \<Rightarrow> True)"

definition env_of :: "(request list \<Rightarrow> request \<Rightarrow> exn + response) \<Rightarrow> env" where
  "env_of n =
     \<lparr> net = n, b64encode = example_b64, py_str = example_str, stdout_accepts = utf8_stdout \<rparr>"

text \<open>Networks: every call fails; every call is answered with status 500.\<close>

definition net_down :: "request list \<Rightarrow> request \<Rightarrow> exn + response" where
  "net_down history rq = Inl RequestException"


text \<open>The blog creates the post with identifier 42; the image service answers 404.\<close>

definition net_image_404 :: "request list \<Rightarrow> request \<Rightarrow> exn + response" where
  "net_image_404 history rq =
     (if verb rq = GET then Inr \<lparr> status_code = 404, content = [], json_body = None \<rparr>
      else Inr \<lparr> status_code = 201, content = [],
                 json_body = Some (JObj [(ustr ''id'', JInt 42)]) \<rparr>)"

text \<open>
  Everything succeeds: the image service sends three bytes, the blog answers the
  upload with identifier 7 and every other call with identifier 42.
\<close>

definition net_ok :: "request list \<Rightarrow> request \<Rightarrow> exn + response" where
  "net_ok history rq =
     (if verb rq = GET then
        Inr \<lparr> status_code = 200, content = [255, 216, 255], json_body = None \<rparr>
      else if is_media_upload rq then
        Inr \<lparr> status_code = 201, content = [], json_body = Some (JObj [(ustr ''id'', JInt 7)]) \<rparr>
      else
        Inr \<lparr> status_code = 201, content = [],
              json_body = Some (JObj [(ustr ''id'', JInt 42)]) \<rparr>)"



text \<open>The blog answers the post creation with status 201 and an empty JSON list.\<close>

definition net_list_answer :: "request list \<Rightarrow> request \<Rightarrow> exn + response" where
  "net_list_answer history rq =
     (if verb rq = GET then
        Inr \<lparr> status_code = 200, content = [255, 216, 255], json_body = None \<rparr>
      else Inr \<lparr> status_code = 201, content = [], json_body = Some (JArr []) \<rparr>)"

text \<open>
  The blog answers the post creation with an identifier that is the one-character
  string of the lone surrogate U+D800 (55296), as \<open>{"id": "\ud800"}\<close> decodes.
\<close>

definition net_surrogate_id :: "request list \<Rightarrow> request \<Rightarrow> exn + response" where
  "net_surrogate_id history rq =
     (if verb rq = GET then
        Inr \<lparr> status_code = 200, content = [255, 216, 255], json_body = None \<rparr>
      else Inr \<lparr> status_code = 201, content = [],
                 json_body = Some (JObj [(ustr ''id'', JStr [55296])]) \<rparr>)"


section \<open>Facts about strings\<close>

lemma str_in_sublist: "str_in p s = sublist p s"
  by (induction s) (auto simp: sublist_Cons_right)

lemma str_in_append_right: "str_in p (a @ p)"
  by (simp add: str_in_sublist)

lemma str_in_middle: "str_in p (a @ p @ b)"
  by (simp add: str_in_sublist)

lemma MARKER_eval:
  "MARKER = [60, 33, 45, 45, 32, 65, 85, 84, 79, 95, 71, 69, 78, 69, 82, 65, 84, 69, 68, 32, 45, 45, 62]"
  by (simp add: MARKER_def)

text \<open>
  Counting the marker through a text: a position that does not hold \<open><!\<close> starts no
  occurrence.
\<close>

lemma count_occ_marker_ne: "c \<noteq> 60 \<Longrightarrow> count_occ MARKER (c # s) = count_occ MARKER s"
  by (simp add: MARKER_eval)

lemma count_occ_marker_lt:
  "c \<noteq> 33 \<Longrightarrow> count_occ MARKER (60 # c # s) = count_occ MARKER (c # s)"
  by (simp add: MARKER_eval)

text \<open>
  If \<open>p\<close> does not occur in \<open>a\<close> and no occurrence can start in \<open>a\<close> and end in \<open>b\<close>,
  the occurrences in \<open>a @ b\<close> are those in \<open>b\<close>.
\<close>

lemma count_occ_append_free:
  assumes "\<not> sublist p a"
    and "\<And>us. us \<noteq> [] \<Longrightarrow> us \<noteq> p \<Longrightarrow> suffix us p \<Longrightarrow> \<not> prefix us b"
  shows "count_occ p (a @ b) = count_occ p b"
  using assms(1)
proof (induction a)
  case Nil
  then show ?case by simp
next
  case (Cons x xs)
  from Cons.prems have nxs: "\<not> sublist p xs" and npre: "\<not> prefix p (x # xs)"
    by (auto simp: sublist_Cons_right)
  have "\<not> prefix p ((x # xs) @ b)"
  proof
    assume "prefix p ((x # xs) @ b)"
    then have "prefix p (x # xs) \<or> (\<exists>us. p = (x # xs) @ us \<and> prefix us b)"
      by (simp only: prefix_append)
    then consider "prefix p (x # xs)" | us where "p = (x # xs) @ us" "prefix us b"
      by blast
    then show False
    proof cases
      case 1
      with npre show False by simp
    next
      case 2
      have "us \<noteq> []" using 2(1) npre by auto
      moreover have "us \<noteq> p" using 2(1) by auto
      moreover have "suffix us p" using 2(1) by (auto simp: suffix_def)
      ultimately show False using assms(2) 2(2) by blast
    qed
  qed
  then show ?case using Cons.IH[OF nxs] by simp
qed

lemma count_occ_marker_free:
  assumes "\<not> str_in MARKER a"
    and "list_all (\<lambda>us. us = [] \<or> us = MARKER \<or> \<not> prefix us b) (suffixes MARKER)"
  shows "count_occ MARKER (a @ b) = count_occ MARKER b"
proof (rule count_occ_append_free)
  show "\<not> sublist MARKER a" using assms(1) by (simp add: str_in_sublist)
next
  fix us assume "us \<noteq> []" "us \<noteq> MARKER" "suffix us MARKER"
  then show "\<not> prefix us b"
    using assms(2) by (auto simp: list_all_iff)
qed

lemma skip_before_space_dash:
  "\<not> str_in MARKER a \<Longrightarrow>
   count_occ MARKER (a @ 32 # 8212 # s) = count_occ MARKER (32 # 8212 # s)"
  by (rule count_occ_marker_free) (simp_all add: MARKER_eval)

lemma skip_before_apostrophe:
  "\<not> str_in MARKER a \<Longrightarrow> count_occ MARKER (a @ 39 # s) = count_occ MARKER (39 # s)"
  by (rule count_occ_marker_free) (simp_all add: MARKER_eval)

lemma skip_before_closing_tag:
  "\<not> str_in MARKER a \<Longrightarrow>
   count_occ MARKER (a @ 60 # 47 # s) = count_occ MARKER (60 # 47 # s)"
  by (rule count_occ_marker_free) (simp_all add: MARKER_eval)

lemma skip_before_newline:
  "\<not> str_in MARKER a \<Longrightarrow> count_occ MARKER (a @ 10 # s) = count_occ MARKER (10 # s)"
  by (rule count_occ_marker_free) (simp_all add: MARKER_eval)

lemma append_marker_once:
  "\<not> str_in MARKER b \<Longrightarrow> count_occ MARKER (append_marker b) = 1"
  unfolding append_marker_def
  by (simp add: skip_before_newline count_occ_marker_ne count_occ_marker_lt
        del: count_occ.simps)
     (simp add: MARKER_eval)

lemma fallback_marker_once:
  assumes "\<not> str_in MARKER (PRIMARY_KEYWORD cfg)" and "\<not> str_in MARKER (AFF_LINK cfg)"
  shows "count_occ MARKER (fallback_generate cfg prompt) = 1"
  unfolding fallback_generate_def fallback_title_def fallback_body_def
  by (simp add: skip_before_space_dash[OF assms(1)] skip_before_apostrophe[OF assms(1)]
        skip_before_closing_tag[OF assms(2)] count_occ_marker_ne count_occ_marker_lt
        del: count_occ.simps)
     (simp add: MARKER_eval)

text \<open>A text without line boundary, followed by a line feed, is the first line.\<close>

lemma splitlines_acc_first:
  "\<forall>c\<in>set s. \<not> is_linebreak c \<Longrightarrow>
   splitlines_acc cur (s @ 10 # rest) = (cur @ s) # splitlines_acc [] rest"
proof (induction s arbitrary: cur)
  case Nil
  then show ?case by (simp add: is_linebreak_def)
next
  case (Cons c s)
  then have "c \<noteq> 13" and "\<not> is_linebreak c"
    by (auto simp: is_linebreak_def)
  with Cons show ?case by simp
qed

lemma fallback_first_line:
  assumes "\<forall>c\<in>set (PRIMARY_KEYWORD cfg). \<not> is_linebreak c"
  shows "take 1 (splitlines (fallback_generate cfg prompt)) = [fallback_title cfg]"
proof -
  have "\<forall>c\<in>set (fallback_title cfg). \<not> is_linebreak c"
    using assms by (auto simp: fallback_title_def is_linebreak_def)
  then have "splitlines_acc [] (fallback_title cfg @ 10 # ([10] @ fallback_body cfg @ [10, 10] @ MARKER))
      = ([] @ fallback_title cfg) # splitlines_acc [] ([10] @ fallback_body cfg @ [10, 10] @ MARKER)"
    by (rule splitlines_acc_first)
  then show ?thesis
    by (simp add: splitlines_def fallback_generate_def MARKER_def)
qed

lemma count_occ_marker_hit:
  "count_occ MARKER (60 # 33 # 45 # 45 # 32 # 65 # 85 # 84 # 79 # 95 # 71 # 69 # 78 # 69 # 82 # 65
      # 84 # 69 # 68 # 32 # 45 # 45 # 62 # s) = Suc (count_occ MARKER s)"
  by (simp add: MARKER_eval)

lemma str_in_refl: "str_in p p"
  by (simp add: str_in_sublist)

lemma str_in_appendI1: "str_in p a \<Longrightarrow> str_in p (a @ b)"
  by (auto simp: str_in_sublist sublist_append)

lemma str_in_appendI2: "str_in p b \<Longrightarrow> str_in p (a @ b)"
  by (auto simp: str_in_sublist sublist_append)

lemma fallback_body_keyword: "str_in (PRIMARY_KEYWORD cfg) (fallback_body cfg)"
  unfolding fallback_body_def
  by (blast intro: str_in_refl str_in_appendI1 str_in_appendI2)

lemma fallback_body_link: "str_in (AFF_LINK cfg) (fallback_body cfg)"
  unfolding fallback_body_def
  by (blast intro: str_in_refl str_in_appendI1 str_in_appendI2)

lemma append_marker_contains: "str_in MARKER (append_marker b)"
  using str_in_append_right[of MARKER "b @ [10, 10]"] by (simp add: append_marker_def)

section \<open>Facts about the calls of a run\<close>

lemma calls_between_append: "sent st' = sent st @ xs \<Longrightarrow> calls_between st st' = xs"
  by (simp add: calls_between_def)


lemma print_line_sent: "sent (print_line l st) = sent st"
  by (simp add: print_line_def)

lemma print_line_printed: "printed (print_line l st) = printed st @ [l]"
  by (simp add: print_line_def)




lemma fetch_state:
  "snd (fetch_unsplash_image E q st)
     = (case quote q of Inl e \<Rightarrow> st
        | Inr u \<Rightarrow> st\<lparr>sent := sent st @ [unsplash_request u]\<rparr>)"
  by (simp add: fetch_unsplash_image_def send_def split: sum.splits)

lemma upload_state:
  "snd (upload_media_to_wp E cfg img f st)
     = (case basic_auth E cfg of Inl e \<Rightarrow> st
        | Inr auth \<Rightarrow> st\<lparr>sent := sent st @ [media_request cfg auth img f]\<rparr>)"
  by (simp add: upload_media_to_wp_def send_def split: sum.splits)

lemma quote_saas: "quote (ustr ''saas dashboard'') = Inr (ustr ''saas%20dashboard'')"
  by (simp add: quote_def utf8_char_def quote_byte_def quote_safe_def hex_digit_def)

lemma quote_default_keyword:
  "quote (PRIMARY_KEYWORD example_config) = Inr (ustr ''best%20marketing%20automation%20tools%202025'')"
  by (simp add: example_config_def default_PRIMARY_KEYWORD_def quote_def utf8_char_def quote_byte_def quote_safe_def hex_digit_def)




lemma class_featured:
  "\<not> is_image_fetch (featured_request E cfg auth pid mid)"
  "\<not> is_media_upload (featured_request E cfg auth pid mid)"
  "is_featured_update (featured_request E cfg auth pid mid)"
  by (simp_all add: is_image_fetch_def is_media_upload_def is_featured_update_def
      json_field_def featured_request_def)




lemma basic_auth_example: "basic_auth (env_of n) example_config = Inr (ustr ''dTpw'')"
  by (simp add: basic_auth_def example_config_def fmt_opt_def utf8_char_def env_of_def example_b64_def)

lemma set_featured_calls:
  "\<exists>xs. sent (snd (set_featured E cfg pid mid st)) = sent st @ xs"
  by (auto simp: set_featured_def send_def print_line_def split: sum.splits)

lemma set_featured_printed:
  "set_featured E cfg pid mid st = (Inl e, st') \<Longrightarrow> printed st' = printed st"
  by (auto simp: set_featured_def send_def print_line_def split: sum.splits)

lemma set_featured_printed_any:
  "\<exists>ys. printed (snd (set_featured E cfg pid mid st)) = printed st @ ys"
  by (auto simp: set_featured_def send_def print_line_def split: sum.splits)

lemma fetch_saas_state:
  "snd (fetch_unsplash_image E (ustr ''saas dashboard'') st)
     = st\<lparr>sent := sent st @ [unsplash_request (ustr ''saas%20dashboard'')]\<rparr>"
  by (simp only: fetch_state quote_saas sum.case)

lemma attach_image_first_call:
  "\<exists>rest. sent (snd (attach_image E cfg pid st))
      = sent st @ unsplash_request (ustr ''saas%20dashboard'') # rest"
proof (cases "fetch_unsplash_image E (ustr ''saas dashboard'') st")
  case f: (Pair r1 st1)
  have s1: "st1 = st\<lparr>sent := sent st @ [unsplash_request (ustr ''saas%20dashboard'')]\<rparr>"
    using f fetch_saas_state[of E st] by simp
  show ?thesis
  proof (cases r1)
    case (Inl e)
    with f s1 show ?thesis by (simp add: attach_image_def)
  next
    case (Inr img)
    show ?thesis
    proof (cases "upload_media_to_wp E cfg img (ustr ''hero.jpg'') st1")
      case u: (Pair r2 st2)
      have s2: "\<exists>xs. sent st2 = sent st1 @ xs"
        using u upload_state[of E cfg img "ustr ''hero.jpg''" st1] by (auto split: sum.splits)
      then obtain xs where xs: "sent st2 = sent st1 @ xs" ..
      show ?thesis
      proof (cases r2)
        case (Inl e)
        with f Inr u xs s1 show ?thesis by (simp add: attach_image_def)
      next
        case m: (Inr media)
        show ?thesis
        proof (cases "py_get media (ustr ''id'')")
          case (Inl e)
          with f Inr u m xs s1 show ?thesis by (simp add: attach_image_def)
        next
          case g: (Inr mid)
          obtain ys where ys: "sent (snd (set_featured E cfg pid mid st2)) = sent st2 @ ys"
            using set_featured_calls by blast
          show ?thesis
            using f Inr u m g xs s1 ys by (simp add: attach_image_def)
        qed
      qed
    qed
  qed
qed

lemma attach_image_printed_fail:
  "attach_image E cfg pid st = (Inl e, st') \<Longrightarrow> printed st' = printed st"
  by (auto simp: attach_image_def fetch_unsplash_image_def upload_media_to_wp_def
      send_def split: sum.splits prod.splits if_splits dest: set_featured_printed)

lemma attach_image_printed_any:
  "\<exists>ys. printed (snd (attach_image E cfg pid st)) = printed st @ ys"
  by (auto simp: attach_image_def fetch_unsplash_image_def upload_media_to_wp_def
      set_featured_def send_def print_line_def split: sum.splits prod.splits if_splits)


lemma env_of_net: "net (env_of n) = n"
  by (simp add: env_of_def)

lemma env_of_py_str: "py_str (env_of n) = example_str"
  by (simp add: env_of_def)









lemma env_of_stdout: "stdout_accepts (env_of n) = utf8_stdout"
  by (simp add: env_of_def)


lemma print_value_accepted:
  "stdout_accepts E l \<Longrightarrow> print_value E l st = (Inr (), print_line l st)"
  by (simp add: print_value_def)



lemma example_generates_template:
  "generate_content E example_config st
     = (JStr (fallback_generate example_config (make_prompt example_config)), st)"
  by (simp add: generate_content_def Let_def call_hf_def example_config_def truthy_opt_def)

lemma print_value_printed_any: "\<exists>ys. printed (snd (print_value E l st)) = printed st @ ys"
  by (simp add: print_value_def print_line_def)

lemma try_attach_image_printed_any:
  "\<exists>ys. printed (snd (try_attach_image E cfg pid st)) = printed st @ ys"
proof (cases "attach_image E cfg pid st")
  case (Pair r st')
  obtain ys where ys: "printed st' = printed st @ ys"
    using attach_image_printed_any[of E cfg pid st] Pair by auto
  show ?thesis
    using Pair ys by (cases r) (auto simp: try_attach_image_def print_value_def print_line_def)
qed

lemma create_and_attach_reported:
  "post_to_wp E cfg (post_title fp) (post_body fp) (post_excerpt fp) st = (Inr res, st1) \<Longrightarrow>
   py_get res (ustr ''id'') = Inr post_id \<Longrightarrow> stdout_accepts E (Draft_created post_id) \<Longrightarrow>
   create_and_attach E cfg fp st
     = try_attach_image E cfg post_id (print_line (Draft_created post_id) st1)"
  by (simp add: create_and_attach_def print_value_def)

lemma publish_printed_any:
  "\<exists>ys. printed (snd (publish E cfg fp st)) = printed (snd (create_and_attach E cfg fp st)) @ ys"
  by (cases "create_and_attach E cfg fp st")
    (auto simp: publish_def print_value_def print_line_def split: sum.splits)

lemma publish_no_raise:
  "\<forall>e. stdout_accepts E (Failed_to_post e) \<Longrightarrow> fst (publish E cfg fp st) = Inr ()"
  by (cases "create_and_attach E cfg fp st")
    (auto simp: publish_def print_value_def split: sum.splits)

section \<open>The local fallback generator: claim C5\<close>

text \<open>
  Against C5 as stated: with \<open>PRIMARY_KEYWORD\<close> set to the text of the marker, the
  template holds the marker three times (in the title, in the introduction and at the
  end), not once.
\<close>

theorem fallback_marker_not_once:
  "count_occ MARKER
     (fallback_generate marker_keyword_config (make_prompt marker_keyword_config)) = 3"
  by (simp add: fallback_generate_def fallback_title_def fallback_body_def
        marker_keyword_config_def example_config_def default_AFF_LINK_def
        count_occ_marker_ne count_occ_marker_lt count_occ_marker_hit
        del: count_occ.simps)
     (simp add: MARKER_eval)

text \<open>
  C5, amended. For every keyword and affiliate link, \<open>fallback_generate\<close> returns
  (it is total) the title, a blank line, the body, a blank line and the marker; the
  title starts with the keyword; the body is not empty and contains the keyword and the
  affiliate link. If the keyword holds no line boundary, the first line of the text is
  the title. If neither the keyword nor the affiliate link contains the marker, the
  marker occurs exactly once in the text.
\<close>

theorem fallback_generate_template:
  "fallback_generate cfg prompt
      = fallback_title cfg @ [10, 10] @ fallback_body cfg @ [10, 10] @ MARKER
   \<and> prefix (PRIMARY_KEYWORD cfg) (fallback_title cfg)
   \<and> fallback_body cfg \<noteq> []
   \<and> str_in (PRIMARY_KEYWORD cfg) (fallback_body cfg)
   \<and> str_in (AFF_LINK cfg) (fallback_body cfg)
   \<and> ((\<forall>c\<in>set (PRIMARY_KEYWORD cfg). \<not> is_linebreak c) \<longrightarrow>
         take 1 (splitlines (fallback_generate cfg prompt)) = [fallback_title cfg])
   \<and> (\<not> str_in MARKER (PRIMARY_KEYWORD cfg) \<and> \<not> str_in MARKER (AFF_LINK cfg) \<longrightarrow>
         count_occ MARKER (fallback_generate cfg prompt) = 1)"
proof -
  have "fallback_generate cfg prompt
      = fallback_title cfg @ [10, 10] @ fallback_body cfg @ [10, 10] @ MARKER"
    by (simp add: fallback_generate_def MARKER_def)
  moreover have "prefix (PRIMARY_KEYWORD cfg) (fallback_title cfg)"
    by (simp add: fallback_title_def)
  moreover have "fallback_body cfg \<noteq> []"
    by (simp add: fallback_body_def)
  ultimately show ?thesis
    using fallback_body_keyword fallback_body_link fallback_first_line fallback_marker_once
    by blast
qed

text \<open>
  The default keyword and affiliate link meet both conditions, so for them the first
  line is the title and the marker occurs once.
\<close>

theorem fallback_generate_template_witness:
  "list_all (\<lambda>c. \<not> is_linebreak c) (PRIMARY_KEYWORD example_config)
   \<and> take 1 (splitlines (fallback_generate example_config (make_prompt example_config)))
        = [fallback_title example_config]
   \<and> \<not> str_in MARKER (PRIMARY_KEYWORD example_config)
   \<and> \<not> str_in MARKER (AFF_LINK example_config)
   \<and> count_occ MARKER (fallback_generate example_config (make_prompt example_config)) = 1"
proof -
  have a: "\<forall>c\<in>set (PRIMARY_KEYWORD example_config). \<not> is_linebreak c"
    by (simp add: example_config_def default_PRIMARY_KEYWORD_def is_linebreak_def)
  have b: "\<not> str_in MARKER (PRIMARY_KEYWORD example_config)"
    by (simp add: example_config_def default_PRIMARY_KEYWORD_def MARKER_eval)
  have c: "\<not> str_in MARKER (AFF_LINK example_config)"
    by (simp add: example_config_def default_AFF_LINK_def MARKER_eval)
  have a': "list_all (\<lambda>c. \<not> is_linebreak c) (PRIMARY_KEYWORD example_config)"
    using a by (simp add: list_all_iff)
  show ?thesis
    using a a' b c fallback_generate_template[of example_config "make_prompt example_config"]
    by blast
qed

section \<open>The formatter: claims C6 to C9\<close>

text \<open>
  C6. For every generated text, the body of the formatted post contains the marker,
  and the request that \<open>post_to_wp\<close> builds from the formatted post carries exactly this
  body as its \<open>content\<close>.
\<close>

theorem sent_body_contains_marker:
  "json_field (ustr ''content'')
       (post_request cfg auth (post_title (format_post cfg txt))
          (post_body (format_post cfg txt)) (post_excerpt (format_post cfg txt)))
     = Some (JStr (post_body (format_post cfg txt)))
   \<and> str_in MARKER (post_body (format_post cfg txt))"
  by (simp add: json_field_def post_request_def format_post_def Let_def append_marker_contains)

theorem sent_body_contains_marker_witness:
  "str_in MARKER (post_body (format_post example_config plain_text))"
  using sent_body_contains_marker[of example_config "[]" plain_text] by (rule conjunct2)

text \<open>
  C7. For every generated text, the excerpt is exactly the first 140 characters of the
  body as it stands after the wrapping step (\<open>body[:140]\<close>, a plain cut), so it has at
  most 140 characters; it is also the beginning of the body that is sent.
\<close>

theorem excerpt_is_first_140:
  "post_excerpt (format_post cfg txt) = take 140 (wrap_paragraphs (main_body (main_lines txt)))
   \<and> length (post_excerpt (format_post cfg txt)) \<le> 140
   \<and> prefix (post_excerpt (format_post cfg txt)) (post_body (format_post cfg txt))"
proof -
  have "prefix (take 140 b) (append_marker b)" for b
    by (simp add: append_marker_def take_is_prefix prefix_prefix)
  then show ?thesis
    by (simp add: format_post_def Let_def main_excerpt_def)
qed

theorem excerpt_is_first_140_witness:
  "length (post_excerpt (format_post example_config html_text)) \<le> 140"
  using excerpt_is_first_140[of example_config html_text] by blast

text \<open>
  C8. The marker step is idempotent: applied twice it gives what it gives applied once;
  a body that already contains the marker is returned unchanged; and a body without the
  marker holds it exactly once afterwards.
\<close>

theorem append_marker_idempotent:
  "append_marker (append_marker b) = append_marker b
   \<and> (str_in MARKER b \<longrightarrow> append_marker b = b)
   \<and> (\<not> str_in MARKER b \<longrightarrow> count_occ MARKER (append_marker b) = 1)"
  using append_marker_contains[of b] append_marker_once[of b]
  by (simp add: append_marker_def)

theorem append_marker_idempotent_witness:
  "str_in MARKER (ustr ''<p>x</p>'' @ MARKER)
   \<and> append_marker (ustr ''<p>x</p>'' @ MARKER) = ustr ''<p>x</p>'' @ MARKER
   \<and> \<not> str_in MARKER (ustr ''<p>x</p>'')
   \<and> count_occ MARKER (append_marker (ustr ''<p>x</p>'')) = 1"
proof -
  have a: "str_in MARKER (ustr ''<p>x</p>'' @ MARKER)"
    by (rule str_in_append_right)
  have b: "\<not> str_in MARKER (ustr ''<p>x</p>'')"
    by (simp add: MARKER_eval)
  show ?thesis
    using a b append_marker_idempotent[of "ustr ''<p>x</p>'' @ MARKER"]
      append_marker_idempotent[of "ustr ''<p>x</p>''"]
    by blast
qed




section \<open>The generation tiers: claim C1\<close>




section \<open>The image fetch: claim C2\<close>

text \<open>
  Against C2 as stated: with the default keyword, the one call of the image steps on a
  network that is down is the GET for \<open>saas%20dashboard\<close>; the URL-quoted keyword does
  not occur in its URL.
\<close>

theorem image_not_addressed_by_keyword:
  "calls_between start (snd (attach_image (env_of net_down) example_config (JInt 42) start))
     = [unsplash_request (ustr ''saas%20dashboard'')]
   \<and> quote (PRIMARY_KEYWORD example_config)
       = Inr (ustr ''best%20marketing%20automation%20tools%202025'')
   \<and> \<not> str_in (ustr ''best%20marketing%20automation%20tools%202025'')
         (url (unsplash_request (ustr ''saas%20dashboard'')))"
proof -
  have "fetch_unsplash_image (env_of net_down) (ustr ''saas dashboard'') start
      = (Inl RequestException, start\<lparr>sent := sent start @ [unsplash_request (ustr ''saas%20dashboard'')]\<rparr>)"
    by (simp only: fetch_unsplash_image_def quote_saas sum.case send_def env_of_net net_down_def
        prod.case)
  then have "snd (attach_image (env_of net_down) example_config (JInt 42) start)
      = start\<lparr>sent := sent start @ [unsplash_request (ustr ''saas%20dashboard'')]\<rparr>"
    by (simp only: attach_image_def prod.case sum.case snd_conv)
  then have a: "calls_between start (snd (attach_image (env_of net_down) example_config (JInt 42) start))
     = [unsplash_request (ustr ''saas%20dashboard'')]"
    by (simp add: calls_between_def)
  have b: "\<not> str_in (ustr ''best%20marketing%20automation%20tools%202025'')
         (url (unsplash_request (ustr ''saas%20dashboard'')))"
    by (simp add: unsplash_request_def)
  show ?thesis using a b quote_default_keyword by blast
qed

text \<open>
  C2, amended. \<open>fetch_unsplash_image\<close> sends one GET whose URL is the address of the
  image service followed by its URL-quoted query argument, so the URL contains the quoted
  query. \<open>main\<close> always passes the fixed query \<open>saas dashboard\<close>: in every run the first
  call of the image steps is the GET for \<open>saas%20dashboard\<close>, whatever the generation
  keyword is.
\<close>

theorem image_fetch_url:
  "(\<forall>q. quote query = Inr q \<longrightarrow>
       snd (fetch_unsplash_image E query st) = st\<lparr>sent := sent st @ [unsplash_request q]\<rparr>
     \<and> verb (unsplash_request q) = GET
     \<and> url (unsplash_request q) = ustr ''https://source.unsplash.com/1200x630/?'' @ q
     \<and> str_in q (url (unsplash_request q)))
   \<and> (\<exists>rest. calls_between st (snd (attach_image E cfg post_id st))
         = unsplash_request (ustr ''saas%20dashboard'') # rest)"
proof (intro conjI allI impI)
  fix q assume q: "quote query = Inr q"
  show "snd (fetch_unsplash_image E query st) = st\<lparr>sent := sent st @ [unsplash_request q]\<rparr>"
    by (simp add: fetch_state q)
  show "verb (unsplash_request q) = GET"
    by (simp add: unsplash_request_def)
  show u: "url (unsplash_request q) = ustr ''https://source.unsplash.com/1200x630/?'' @ q"
    by (simp add: unsplash_request_def)
  show "str_in q (url (unsplash_request q))"
    unfolding u by (rule str_in_append_right)
next
  obtain rest where "sent (snd (attach_image E cfg post_id st))
      = sent st @ unsplash_request (ustr ''saas%20dashboard'') # rest"
    using attach_image_first_call by blast
  then have "calls_between st (snd (attach_image E cfg post_id st))
      = unsplash_request (ustr ''saas%20dashboard'') # rest"
    by (rule calls_between_append)
  then show "\<exists>rest. calls_between st (snd (attach_image E cfg post_id st))
         = unsplash_request (ustr ''saas%20dashboard'') # rest" ..
qed

theorem image_fetch_url_witness:
  "quote (ustr ''saas dashboard'') = Inr (ustr ''saas%20dashboard'')
   \<and> str_in (ustr ''saas%20dashboard'') (url (unsplash_request (ustr ''saas%20dashboard'')))
   \<and> snd (fetch_unsplash_image (env_of net_ok) (ustr ''saas dashboard'') start)
       = start\<lparr>sent := sent start @ [unsplash_request (ustr ''saas%20dashboard'')]\<rparr>"
  using quote_saas image_fetch_url[of "ustr ''saas dashboard''" "env_of net_ok" start]
  by blast

section \<open>Publishing and the image steps: claims C3, C4 and C10\<close>




text \<open>
  Against C4 as stated: the blog answers the post creation with status 201 and a JSON
  list. The call succeeds, \<open>res.get\<close> raises \<open>AttributeError\<close>, and the run reports no
  identifier: after the first line it prints only the publishing failure.
\<close>

theorem list_answer_reports_no_post:
  "fst (post_to_wp (env_of net_list_answer) example_config
         (post_title (format_post example_config
            (fallback_generate example_config (make_prompt example_config))))
         (post_body (format_post example_config
            (fallback_generate example_config (make_prompt example_config))))
         (post_excerpt (format_post example_config
            (fallback_generate example_config (make_prompt example_config))))
         (print_line Generating_content start))
     = Inr (JArr [])
   \<and> printed (snd (main (env_of net_list_answer) example_config start))
       = [Generating_content, Failed_to_post AttributeError]"
proof -
  let ?E = "env_of net_list_answer" and ?txt = "fallback_generate example_config (make_prompt example_config)"
  let ?fp = "format_post example_config ?txt"
  let ?rq = "post_request example_config (ustr ''dTpw'') (post_title ?fp) (post_body ?fp) (post_excerpt ?fp)"
  let ?st1 = "print_line Generating_content start"
  let ?st2 = "?st1\<lparr>sent := [?rq]\<rparr>"
  have post: "post_to_wp ?E example_config (post_title ?fp) (post_body ?fp) (post_excerpt ?fp) ?st1
      = (Inr (JArr []), ?st2)"
    by (simp add: post_to_wp_def basic_auth_example send_def env_of_net net_list_answer_def
        raise_for_status_def response_json_def print_line_def start_def post_request_def)
  have g: "py_get (JArr []) (ustr ''id'') = Inl AttributeError"
    by simp
  have c: "create_and_attach ?E example_config ?fp ?st1 = (Inl AttributeError, ?st2)"
    by (simp only: create_and_attach_def post prod.case sum.case g)
  have pv: "print_value ?E (Failed_to_post AttributeError) S
      = (Inr (), print_line (Failed_to_post AttributeError) S)" for S
    by (simp add: print_value_def env_of_stdout utf8_stdout_def)
  have m: "main ?E example_config start = (Inr (), print_line (Failed_to_post AttributeError) ?st2)"
    by (simp only: main_def example_generates_template prod.case json.case publish_def c sum.case pv)
  have r1: "fst (post_to_wp ?E example_config (post_title ?fp) (post_body ?fp) (post_excerpt ?fp) ?st1)
      = Inr (JArr [])"
    unfolding post by simp
  have r2: "printed (snd (main ?E example_config start))
      = [Generating_content, Failed_to_post AttributeError]"
    unfolding m by (simp add: print_line_def start_def)
  show ?thesis
    by (intro conjI r1 r2)
qed

text \<open>
  C4, amended. Take a run in which the post-creation call succeeds. If standard output
  accepts the line of a publishing failure for every error, \<open>main\<close> ends normally: no
  exception reaches the caller. If the answer is an object, so that an identifier is
  read from it, and standard output accepts the line reporting the post, that line is
  among the lines printed; and if one of the image steps then raises and standard
  output accepts the line reporting the image failure, \<open>main\<close> ends normally with this
  line, carrying the error, printed right after the line reporting the post.
\<close>

theorem image_failure_contained:
  "generate_content E cfg (print_line Generating_content st) = (JStr txt, st1) \<Longrightarrow>
   post_to_wp E cfg (post_title (format_post cfg txt)) (post_body (format_post cfg txt))
     (post_excerpt (format_post cfg txt)) st1 = (Inr res, st2) \<Longrightarrow>
   ((\<forall>e. stdout_accepts E (Failed_to_post e)) \<longrightarrow> fst (main E cfg st) = Inr ())
   \<and> (\<forall>post_id.
         py_get res (ustr ''id'') = Inr post_id \<and> stdout_accepts E (Draft_created post_id) \<longrightarrow>
           Draft_created post_id \<in> set (printed (snd (main E cfg st)))
         \<and> (\<forall>e st3.
               attach_image E cfg post_id (print_line (Draft_created post_id) st2) = (Inl e, st3)
             \<and> stdout_accepts E (Image_attach_failed e) \<longrightarrow>
                 main E cfg st = (Inr (), print_line (Image_attach_failed e) st3)
               \<and> printed (snd (main E cfg st))
                   = printed st2 @ [Draft_created post_id, Image_attach_failed e]))"
proof -
  let ?fp = "format_post cfg txt"
  assume gen: "generate_content E cfg (print_line Generating_content st) = (JStr txt, st1)"
    and post: "post_to_wp E cfg (post_title ?fp) (post_body ?fp) (post_excerpt ?fp) st1 = (Inr res, st2)"
  have m: "main E cfg st = publish E cfg ?fp st1"
    using gen by (simp add: main_def)
  have A: "(\<forall>e. stdout_accepts E (Failed_to_post e)) \<longrightarrow> fst (main E cfg st) = Inr ()"
    using publish_no_raise[of E cfg ?fp st1] by (simp add: m)
  have B: "Draft_created post_id \<in> set (printed (snd (main E cfg st)))
         \<and> (\<forall>e st3.
               attach_image E cfg post_id (print_line (Draft_created post_id) st2) = (Inl e, st3)
             \<and> stdout_accepts E (Image_attach_failed e) \<longrightarrow>
                 main E cfg st = (Inr (), print_line (Image_attach_failed e) st3)
               \<and> printed (snd (main E cfg st))
                   = printed st2 @ [Draft_created post_id, Image_attach_failed e])"
    if g: "py_get res (ustr ''id'') = Inr post_id" and acc: "stdout_accepts E (Draft_created post_id)"
    for post_id
  proof (intro conjI allI impI)
    let ?s = "print_line (Draft_created post_id) st2"
    have c: "create_and_attach E cfg ?fp st1 = try_attach_image E cfg post_id ?s"
      using post g acc by (rule create_and_attach_reported)
    obtain ys where ys: "printed (snd (try_attach_image E cfg post_id ?s)) = printed ?s @ ys"
      using try_attach_image_printed_any by blast
    obtain zs where zs: "printed (snd (publish E cfg ?fp st1))
        = printed (snd (create_and_attach E cfg ?fp st1)) @ zs"
      using publish_printed_any by blast
    show "Draft_created post_id \<in> set (printed (snd (main E cfg st)))"
      by (simp only: m zs c ys) (simp add: print_line_def)
    fix e st3
    assume a: "attach_image E cfg post_id ?s = (Inl e, st3) \<and> stdout_accepts E (Image_attach_failed e)"
    then have t: "try_attach_image E cfg post_id ?s = (Inr (), print_line (Image_attach_failed e) st3)"
      by (simp add: try_attach_image_def print_value_def)
    show r: "main E cfg st = (Inr (), print_line (Image_attach_failed e) st3)"
      by (simp add: m publish_def c t)
    have "printed st3 = printed ?s"
      using a attach_image_printed_fail by blast
    then show "printed (snd (main E cfg st))
        = printed st2 @ [Draft_created post_id, Image_attach_failed e]"
      by (simp add: r print_line_def)
  qed
  show ?thesis
    using A B by blast
qed

text \<open>
  The run of the spec's scenario: the post is created with identifier 42 and the image
  service answers 404.
\<close>

theorem image_failure_contained_witness:
  "fst (main (env_of net_image_404) example_config start) = Inr ()
   \<and> printed (snd (main (env_of net_image_404) example_config start))
       = [Generating_content, Draft_created (JInt 42), Image_attach_failed (HTTPError 404)]"
proof -
  let ?E = "env_of net_image_404" and ?txt = "fallback_generate example_config (make_prompt example_config)"
  let ?st1 = "print_line Generating_content start"
  let ?rq = "post_request example_config (ustr ''dTpw'')
        (post_title (format_post example_config ?txt)) (post_body (format_post example_config ?txt))
        (post_excerpt (format_post example_config ?txt))"
  let ?st2 = "?st1\<lparr>sent := [?rq]\<rparr>"
  have gen: "generate_content ?E example_config ?st1 = (JStr ?txt, ?st1)"
    by (rule example_generates_template)
  have post: "post_to_wp ?E example_config (post_title (format_post example_config ?txt))
      (post_body (format_post example_config ?txt)) (post_excerpt (format_post example_config ?txt)) ?st1
    = (Inr (JObj [(ustr ''id'', JInt 42)]), ?st2)"
    by (simp add: post_to_wp_def basic_auth_example send_def env_of_net net_image_404_def
        raise_for_status_def response_json_def print_line_def start_def post_request_def)
  have g: "py_get (JObj [(ustr ''id'', JInt 42)]) (ustr ''id'') = Inr (JInt 42)"
    by simp
  have f: "fetch_unsplash_image ?E (ustr ''saas dashboard'') S
      = (Inl (HTTPError 404), S\<lparr>sent := sent S @ [unsplash_request (ustr ''saas%20dashboard'')]\<rparr>)" for S
    unfolding fetch_unsplash_image_def quote_saas
    by (simp add: send_def env_of_net net_image_404_def unsplash_request_def raise_for_status_def)
  have a: "attach_image ?E example_config (JInt 42) (print_line (Draft_created (JInt 42)) ?st2)
      = (Inl (HTTPError 404), (print_line (Draft_created (JInt 42)) ?st2)
           \<lparr>sent := sent (print_line (Draft_created (JInt 42)) ?st2)
               @ [unsplash_request (ustr ''saas%20dashboard'')]\<rparr>)"
    by (simp only: attach_image_def f prod.case sum.case)
  have acc: "stdout_accepts ?E (Draft_created (JInt 42))"
    "stdout_accepts ?E (Image_attach_failed (HTTPError 404))"
    by (simp_all add: env_of_stdout utf8_stdout_def)
  have "main ?E example_config start = (Inr (), print_line (Image_attach_failed (HTTPError 404))
        ((print_line (Draft_created (JInt 42)) ?st2)
           \<lparr>sent := sent (print_line (Draft_created (JInt 42)) ?st2)
               @ [unsplash_request (ustr ''saas%20dashboard'')]\<rparr>))
     \<and> printed (snd (main ?E example_config start))
        = printed ?st2 @ [Draft_created (JInt 42), Image_attach_failed (HTTPError 404)]"
    using image_failure_contained[OF gen post] g a acc by blast
  then show ?thesis
    by (simp add: print_line_def start_def)
qed



text \<open>
  A run in which the identifier of the created post is a string that standard output
  cannot encode: the print of line 138 raises inside the outer \<open>try\<close>, the handler
  prints the publishing failure, and no image step is made.
\<close>

lemma unprintable_identifier_run:
  "main (env_of net_surrogate_id) example_config start
     = (Inr (),
        \<lparr> sent =
            [post_request example_config (ustr ''dTpw'')
               (post_title (format_post example_config
                  (fallback_generate example_config (make_prompt example_config))))
               (post_body (format_post example_config
                  (fallback_generate example_config (make_prompt example_config))))
               (post_excerpt (format_post example_config
                  (fallback_generate example_config (make_prompt example_config))))],
          printed = [Generating_content, Failed_to_post UnicodeEncodeError] \<rparr>)"
proof -
  let ?E = "env_of net_surrogate_id" and ?txt = "fallback_generate example_config (make_prompt example_config)"
  let ?fp = "format_post example_config ?txt"
  let ?rq = "post_request example_config (ustr ''dTpw'') (post_title ?fp) (post_body ?fp) (post_excerpt ?fp)"
  let ?st1 = "print_line Generating_content start"
  let ?st2 = "?st1\<lparr>sent := [?rq]\<rparr>"
  have post: "post_to_wp ?E example_config (post_title ?fp) (post_body ?fp) (post_excerpt ?fp) ?st1
      = (Inr (JObj [(ustr ''id'', JStr [55296])]), ?st2)"
    by (simp add: post_to_wp_def basic_auth_example send_def env_of_net net_surrogate_id_def
        raise_for_status_def response_json_def print_line_def start_def post_request_def)
  have g: "py_get (JObj [(ustr ''id'', JStr [55296])]) (ustr ''id'') = Inr (JStr [55296])"
    by simp
  have pv: "print_value ?E (Draft_created (JStr [55296])) S = (Inl UnicodeEncodeError, S)" for S
    by (simp add: print_value_def env_of_stdout utf8_stdout_def utf8_char_def)
  have c: "create_and_attach ?E example_config ?fp ?st1 = (Inl UnicodeEncodeError, ?st2)"
    by (simp only: create_and_attach_def post prod.case sum.case g pv)
  have pf: "print_value ?E (Failed_to_post UnicodeEncodeError) S
      = (Inr (), print_line (Failed_to_post UnicodeEncodeError) S)" for S
    by (simp add: print_value_def env_of_stdout utf8_stdout_def)
  have m: "main ?E example_config start = (Inr (), print_line (Failed_to_post UnicodeEncodeError) ?st2)"
    by (simp only: main_def example_generates_template prod.case json.case publish_def c sum.case pf)
  show ?thesis
    unfolding m by (simp add: print_line_def start_def)
qed

end
